theory Spec2Isabelle
  imports Main "HOL-Library.AList"
begin

section \<open>The education-layer ETL pipeline of \<^verbatim>\<open>building_module1.py\<close>\<close>

text \<open>
  The module extracts the records of a map-service layer page by page, normalizes each
  layer (\<^verbatim>\<open>transform\<close>), concatenates the layers and writes every collection to a
  GeoJSON file and to one layer of a shared GeoPackage. The embedding below follows the
  module function by function. What the module leaves to its libraries is modelled as
  follows.
  \<^item> A geometry is opaque: the module only tests it for being missing and hands it to the
    reprojection. The type of geometries is the parameter \<open>'g\<close>; a missing geometry is
    \<open>None\<close>. An empty geometry (such as \<^verbatim>\<open>POINT EMPTY\<close>) is a geometry, not a missing one.
  \<^item> An attribute value is a JSON scalar; \<open>Null\<close> is the missing value (JSON null, NaN).
  \<^item> Four library functions are parameters of the model: the conversion of a geometry
    between reference systems (\<open>reproject\<close>), \<^verbatim>\<open>str.lower\<close> on strings with non-ASCII
    characters (\<open>unicode_lower\<close>), the parser of a \<^verbatim>\<open>crs\<close> value (\<open>parse_crs\<close>) and the
    conversion of the values of a column to the column's type (\<open>as_column\<close>).
  \<^item> \<^verbatim>\<open>print\<close> calls are progress output and are left out.
\<close>

subsection \<open>Configuration\<close>

datatype crs = EPSG nat

text \<open>\<^verbatim>\<open>CRS_OUT = "EPSG:4326"\<close>, \<^verbatim>\<open>PAGE_SIZE = 2000\<close>, \<^verbatim>\<open>EDUCATION_LAYERS\<close>,
  \<^verbatim>\<open>OUTPUT_DIR\<close>.\<close>

definition CRS_OUT :: crs where
  "CRS_OUT = EPSG 4326"

definition PAGE_SIZE :: nat where
  "PAGE_SIZE = 2000"

definition EDUCATION_LAYERS :: "(string \<times> nat) list" where
  "EDUCATION_LAYERS =
     [(''schools'', 76), (''colleges_universities'', 74), (''technical_trade_schools'', 75)]"

definition OUTPUT_DIR :: string where
  "OUTPUT_DIR = ''education_etl_output''"

subsection \<open>Failures\<close>

text \<open>The exceptions that can end a run:
  \<^item> \<open>RequestError\<close>: a failed request (\<^verbatim>\<open>requests.get\<close>, \<^verbatim>\<open>raise_for_status\<close> or
    \<^verbatim>\<open>response.json\<close> raising);
  \<^item> \<open>NoDataReturned\<close>: the \<^verbatim>\<open>RuntimeError("No data returned for layer ...")\<close> of
    \<open>extract_layer\<close> (the specification's EmptyLayerError);
  \<^item> \<open>CRSError\<close>: the \<^verbatim>\<open>crs\<close> value of the last page is not accepted by the parser of
    \<^verbatim>\<open>GeoDataFrame.from_features\<close>;
  \<^item> \<open>GeometryValueError\<close>: a property named \<^verbatim>\<open>geometry\<close> has taken the place of a
    feature's geometry;
  \<^item> \<open>GeometryLabelError\<close>: the \<^verbatim>\<open>ValueError\<close> of a frame with two columns labelled
    \<^verbatim>\<open>geometry\<close> when its geometry is used (line 92 of the module);
  \<^item> \<open>NoObjectsToConcatenate\<close> and \<open>InvalidIndexError\<close>: the exceptions of \<^verbatim>\<open>pd.concat\<close>;
  \<^item> \<open>DuplicateLabelsError\<close>: the \<^verbatim>\<open>ValueError\<close> of \<^verbatim>\<open>to_file\<close> on a frame with a repeated
    column label;
  \<^item> \<open>FileExistsError\<close> of \<^verbatim>\<open>mkdir\<close>, and \<open>WriteError\<close>, a failed write.\<close>

datatype error =
  RequestError
  | NoDataReturned nat
  | CRSError
  | GeometryValueError
  | GeometryLabelError
  | NoObjectsToConcatenate
  | InvalidIndexError
  | DuplicateLabelsError
  | FileExistsError
  | WriteError

datatype outcome = Returned | Raised error

subsection \<open>Data model\<close>

datatype scalar = Null | Str string | Num int | Bool bool

text \<open>A GeoJSON feature as the service returns it: a geometry (or none) and a dictionary
  of properties, in the order of the document.\<close>

record 'g feature =
  geometry :: "'g option"
  properties :: "(string \<times> scalar) list"

text \<open>A GeoDataFrame: the labels of its attribute columns in order (labels may repeat),
  the rows, each with its index label, its geometry and one cell per attribute column, and
  the coordinate reference system of the geometry column (\<open>None\<close> when undeclared). The
  geometry column, labelled \<^verbatim>\<open>geometry\<close>, is kept apart from the attribute columns. An
  attribute column that is labelled \<^verbatim>\<open>geometry\<close> as well makes the label ambiguous: the
  frame can be built, but using its geometry or writing it fails.\<close>

record 'g row =
  label :: nat
  geom :: "'g option"
  cells :: "scalar list"

record 'g gdf =
  columns :: "string list"
  rows :: "'g row list"
  crs :: "crs option"

text \<open>All column labels of a frame, the geometry column first.\<close>

definition all_labels :: "'g gdf \<Rightarrow> string list" where
  "all_labels g = ''geometry'' # columns g"

text \<open>A data frame is rectangular: every row has one cell per column.\<close>

definition rectangular :: "'g gdf \<Rightarrow> bool" where
  "rectangular g = list_all (\<lambda>r. length (cells r) = length (columns g)) (rows g)"

text \<open>The value of a row under a column label (the first column of that label).\<close>

definition cell_at :: "string list \<Rightarrow> scalar list \<Rightarrow> string \<Rightarrow> scalar" where
  "cell_at cols cs c = (case map_of (zip cols cs) c of Some v \<Rightarrow> v | None \<Rightarrow> Null)"

text \<open>For the examples, a geometry is the list of its coordinates; the geometry without
  coordinates is an empty geometry. The \<^verbatim>\<open>crs\<close> member of a page is, in the examples,
  either a GeoJSON named-crs object (a dictionary with the members \<^verbatim>\<open>type\<close> and
  \<^verbatim>\<open>properties\<close>), which pyproj rejects, or the number of an EPSG code, which it accepts.\<close>

definition empty_geometry :: "(int \<times> int) list \<Rightarrow> bool" where
  "empty_geometry cs = (cs = [])"

datatype crs_json = CrsObject string | CrsCode nat

definition parse_crs_example :: "crs_json \<Rightarrow> crs option" where
  "parse_crs_example j = (case j of CrsObject n \<Rightarrow> None | CrsCode n \<Rightarrow> Some (EPSG n))"

subsection \<open>Extract\<close>

text \<open>The JSON body of one page: its \<^verbatim>\<open>features\<close> array and its \<^verbatim>\<open>crs\<close> member, either
  of which may be absent; the \<^verbatim>\<open>crs\<close> member is a JSON value of type \<open>'j\<close>, not yet parsed.
  The service answers a request (layer, \<^verbatim>\<open>resultOffset\<close>, \<^verbatim>\<open>resultRecordCount\<close>) with a
  body or the request fails.\<close>

record ('g, 'j) response =
  features_field :: "'g feature list option"
  crs_field :: "'j option"

type_synonym ('g, 'j) service = "nat \<Rightarrow> nat \<Rightarrow> nat \<Rightarrow> error + ('g, 'j) response"

text \<open>\<^verbatim>\<open>data.get("features", [])\<close>\<close>

definition get_features :: "('g, 'j) response \<Rightarrow> 'g feature list" where
  "get_features data = (case features_field data of None \<Rightarrow> [] | Some fs \<Rightarrow> fs)"

text \<open>The labels of a list in the order of their first occurrence.\<close>

definition unique_labels :: "string list \<Rightarrow> string list" where
  "unique_labels xs = rev (remdups (rev xs))"

text \<open>\<^verbatim>\<open>GeoDataFrame.from_features(features, crs)\<close>. Each feature gives the dictionary
  \<^verbatim>\<open>{"geometry": ...}\<close> updated with its properties, so a property named \<^verbatim>\<open>geometry\<close>
  takes the place of the geometry: a null one leaves the row without geometry, any other
  value is no geometry and leaves the frame unusable for the pipeline (the model fails at
  this point). The rows follow the features, labelled from 0; the attribute columns are the
  other property names in the order of their first occurrence; a property that a feature
  lacks is missing in its row; the values of each column are converted to the column's type
  by \<open>as_column\<close> (integers become floats in a column with a missing value, for instance).
  A \<^verbatim>\<open>crs\<close> value that is not \<^verbatim>\<open>None\<close> is parsed by \<open>parse_crs\<close>, which raises
  \<^verbatim>\<open>CRSError\<close> (the value \<open>None\<close>) on a value it does not accept.\<close>

definition geometry_entry :: "'g feature \<Rightarrow> 'g option" where
  "geometry_entry f =
     (case map_of (properties f) ''geometry'' of None \<Rightarrow> geometry f | Some v \<Rightarrow> None)"

definition geometry_overwritten :: "'g feature \<Rightarrow> bool" where
  "geometry_overwritten f =
     (case map_of (properties f) ''geometry'' of
        None \<Rightarrow> False
      | Some Null \<Rightarrow> False
      | Some v \<Rightarrow> True)"

definition attribute_value :: "'g feature \<Rightarrow> string \<Rightarrow> scalar" where
  "attribute_value f k = (case map_of (properties f) k of Some v \<Rightarrow> v | None \<Rightarrow> Null)"

definition frame_of ::
  "(scalar list \<Rightarrow> scalar list) \<Rightarrow> 'g feature list \<Rightarrow> crs option \<Rightarrow> 'g gdf" where
  "frame_of as_column fs c =
     (let cols = unique_labels
                   (filter (\<lambda>k. k \<noteq> ''geometry'') (concat (map (\<lambda>f. map fst (properties f)) fs)))
      in \<lparr>columns = cols,
          rows = map (\<lambda>(i, f). \<lparr>label = i, geom = geometry_entry f,
                                 cells = map (\<lambda>k. as_column (map (\<lambda>f'. attribute_value f' k) fs) ! i)
                                           cols\<rparr>)
                   (enumerate 0 fs),
          crs = c\<rparr>)"

definition from_features ::
  "('j \<Rightarrow> crs option) \<Rightarrow> (scalar list \<Rightarrow> scalar list) \<Rightarrow> 'g feature list \<Rightarrow> 'j option
     \<Rightarrow> error + 'g gdf" where
  "from_features parse_crs as_column fs c =
     (if list_ex geometry_overwritten fs then Inl GeometryValueError
      else case c of
             None \<Rightarrow> Inr (frame_of as_column fs None)
           | Some j \<Rightarrow>
               (case parse_crs j of
                  None \<Rightarrow> Inl CRSError
                | Some c' \<Rightarrow> Inr (frame_of as_column fs (Some c'))))"

text \<open>The \<^verbatim>\<open>while True\<close> loop of \<open>extract_layer\<close>. Its state is the offset and the
  accumulated features; \<open>fetched\<close> records the offsets of the requests made so far. The loop
  ends when a request fails (the exception leaves the function) or when a batch is empty;
  it returns the accumulated features and the last body \<^verbatim>\<open>data\<close>. The result is \<open>None\<close>
  when the loop never ends. The module constant \<^verbatim>\<open>PAGE_SIZE\<close> is the argument
  \<open>page_size\<close>.\<close>

partial_function (option) extract_loop ::
  "nat \<Rightarrow> ('g, 'j) service \<Rightarrow> nat \<Rightarrow> nat \<Rightarrow> 'g feature list \<Rightarrow> nat list
     \<Rightarrow> ((error + 'g feature list \<times> ('g, 'j) response) \<times> nat list) option"
where
  "extract_loop page_size service layer_id offset features fetched =
     (case service layer_id offset page_size of
        Inl e \<Rightarrow> Some (Inl e, fetched @ [offset])
      | Inr data \<Rightarrow>
          (let batch = get_features data
           in if batch = [] then Some (Inr (features, data), fetched @ [offset])
              else extract_loop page_size service layer_id (offset + page_size)
                     (features @ batch) (fetched @ [offset])))"

definition extract_layer ::
  "('j \<Rightarrow> crs option) \<Rightarrow> (scalar list \<Rightarrow> scalar list) \<Rightarrow> nat \<Rightarrow> ('g, 'j) service \<Rightarrow> nat
     \<Rightarrow> ((error + 'g gdf) \<times> nat list) option" where
  "extract_layer parse_crs as_column page_size service layer_id =
     (case extract_loop page_size service layer_id 0 [] [] of
        None \<Rightarrow> None
      | Some (Inl e, fetched) \<Rightarrow> Some (Inl e, fetched)
      | Some (Inr (features, data), fetched) \<Rightarrow>
          if features = [] then Some (Inl (NoDataReturned layer_id), fetched)
          else Some (from_features parse_crs as_column features (crs_field data), fetched))"


definition paged_service :: "'g feature list \<Rightarrow> 'j option \<Rightarrow> ('g, 'j) service" where
  "paged_service recs c layer_id offset n =
     Inr \<lparr>features_field = Some (take n (drop offset recs)), crs_field = c\<rparr>"


subsection \<open>Transform\<close>

text \<open>\<^verbatim>\<open>str.lower\<close>. On a string of ASCII characters it maps the letters \<^verbatim>\<open>A\<close> to \<^verbatim>\<open>Z\<close> to
  \<^verbatim>\<open>a\<close> to \<^verbatim>\<open>z\<close> and leaves every other character; on a string with other characters
  (the bytes from 128 of its encoding) it is the parameter \<open>unicode_lower\<close>.
  \<^verbatim>\<open>str.replace\<close> is used with one-character arguments.\<close>

definition ascii_lower :: "char \<Rightarrow> char" where
  "ascii_lower c =
     (case map_of (zip ''ABCDEFGHIJKLMNOPQRSTUVWXYZ'' ''abcdefghijklmnopqrstuvwxyz'') c of
        Some l \<Rightarrow> l
      | None \<Rightarrow> c)"

definition is_ascii :: "string \<Rightarrow> bool" where
  "is_ascii s = list_all (\<lambda>c. \<not> digit7 c) s"

definition str_lower :: "(string \<Rightarrow> string) \<Rightarrow> string \<Rightarrow> string" where
  "str_lower unicode_lower s = (if is_ascii s then map ascii_lower s else unicode_lower s)"

definition str_replace :: "char \<Rightarrow> char \<Rightarrow> string \<Rightarrow> string" where
  "str_replace a b s = map (\<lambda>c. if c = a then b else c) s"

text \<open>\<^verbatim>\<open>gdf.columns.str.lower().str.replace(" ", "_").str.replace("-", "_")\<close>, on one
  label.\<close>

definition normalize_column :: "(string \<Rightarrow> string) \<Rightarrow> string \<Rightarrow> string" where
  "normalize_column unicode_lower s =
     str_replace (CHR ''-'') (CHR ''_'')
       (str_replace (CHR '' '') (CHR ''_'') (str_lower unicode_lower s))"

text \<open>\<^verbatim>\<open>gdf[gdf.geometry.notnull()].copy()\<close>: the rows with a geometry, index labels kept.\<close>

definition notnull_rows :: "'g gdf \<Rightarrow> 'g gdf" where
  "notnull_rows g = g\<lparr>rows := filter (\<lambda>r. geom r \<noteq> None) (rows g)\<rparr>"

text \<open>\<^verbatim>\<open>set_crs\<close> declares a reference system and leaves the coordinates alone.
  \<^verbatim>\<open>to_crs\<close> converts the coordinates; the conversion of one geometry is the parameter
  \<open>reproject\<close> (source system, target system, geometry). geopandas returns the geometries
  as they are when source and target are the same system.\<close>

definition set_crs :: "crs \<Rightarrow> 'g gdf \<Rightarrow> 'g gdf" where
  "set_crs c g = g\<lparr>crs := Some c\<rparr>"

definition reproject_to :: "(crs \<Rightarrow> crs \<Rightarrow> 'g \<Rightarrow> 'g) \<Rightarrow> crs \<Rightarrow> crs \<Rightarrow> 'g \<Rightarrow> 'g" where
  "reproject_to reproject src dst x = (if src = dst then x else reproject src dst x)"

definition to_crs :: "(crs \<Rightarrow> crs \<Rightarrow> 'g \<Rightarrow> 'g) \<Rightarrow> crs \<Rightarrow> crs \<Rightarrow> 'g gdf \<Rightarrow> 'g gdf" where
  "to_crs reproject src dst g =
     g\<lparr>rows := map (\<lambda>r. r\<lparr>geom := map_option (reproject_to reproject src dst) (geom r)\<rparr>) (rows g),
       crs := Some dst\<rparr>"

text \<open>\<^verbatim>\<open>gdf[key] = value\<close> with a scalar value: every column labelled \<open>key\<close> is set to the
  value in every row; when there is no such column, one is appended.\<close>

fun assign_cells :: "string \<Rightarrow> scalar \<Rightarrow> string list \<Rightarrow> scalar list \<Rightarrow> scalar list" where
  "assign_cells k v (c # cs) (x # xs) = (if c = k then v else x) # assign_cells k v cs xs"
| "assign_cells k v cs xs = xs"

definition set_column :: "string \<Rightarrow> scalar \<Rightarrow> 'g gdf \<Rightarrow> 'g gdf" where
  "set_column k v g =
     (if k \<in> set (columns g)
      then g\<lparr>rows := map (\<lambda>r. r\<lparr>cells := assign_cells k v (columns g) (cells r)\<rparr>) (rows g)\<rparr>
      else g\<lparr>columns := columns g @ [k],
             rows := map (\<lambda>r. r\<lparr>cells := cells r @ [v]\<rparr>) (rows g)\<rparr>)"

text \<open>\<open>transform\<close>. Line 92 uses \<^verbatim>\<open>gdf.geometry\<close>, which raises on a frame that has an
  attribute column labelled \<^verbatim>\<open>geometry\<close> beside its geometry column. The renaming of lines
  101 to 106 applies to every column label; \<^verbatim>\<open>geometry\<close> itself is left as it is, and an
  attribute label that becomes \<^verbatim>\<open>geometry\<close> gives the returned frame a second column of
  that label.\<close>

definition transform ::
  "(crs \<Rightarrow> crs \<Rightarrow> 'g \<Rightarrow> 'g) \<Rightarrow> (string \<Rightarrow> string) \<Rightarrow> 'g gdf \<Rightarrow> string \<Rightarrow> error + 'g gdf" where
  "transform reproject unicode_lower gdf0 layer_name =
     (if ''geometry'' \<in> set (columns gdf0) then Inl GeometryLabelError
      else
        let gdf1 = notnull_rows gdf0;
            gdf2 = (case crs gdf1 of
                      None \<Rightarrow> set_crs (EPSG 4326) gdf1
                    | Some src \<Rightarrow> to_crs reproject src CRS_OUT gdf1);
            gdf3 = gdf2\<lparr>columns := map (normalize_column unicode_lower) (columns gdf2)\<rparr>;
            gdf4 = set_column ''facility_category'' (Str ''education'') gdf3;
            gdf5 = set_column ''facility_type'' (Str layer_name) gdf4
        in Inr gdf5)"

subsection \<open>Combining the layers\<close>

text \<open>\<^verbatim>\<open>pd.concat(objs, ignore_index=True)\<close> with the default outer join. The column index
  of the result is the union of the column indexes: the common index when all frames have
  the same one, otherwise the distinct labels in the order of their first occurrence. A
  frame whose index differs from the union is reindexed to it, which takes the cell of a
  label the frame has and a missing value otherwise; reindexing a frame with a repeated
  label raises \<^verbatim>\<open>InvalidIndexError\<close>. An empty sequence raises \<^verbatim>\<open>ValueError\<close>. The rows
  follow each other in the order of the frames and are labelled anew from 0.\<close>

definition union_indexes :: "string list list \<Rightarrow> string list" where
  "union_indexes idxs =
     (case idxs of
        [] \<Rightarrow> []
      | i # rest \<Rightarrow> if list_all (\<lambda>j. j = i) rest then i else unique_labels (concat idxs))"

definition reindex_rows :: "string list \<Rightarrow> 'g gdf \<Rightarrow> 'g row list" where
  "reindex_rows new_labels obj =
     (if all_labels obj = new_labels then rows obj
      else map (\<lambda>r. r\<lparr>cells := map (cell_at (columns obj) (cells r)) (tl new_labels)\<rparr>) (rows obj))"

definition ignore_index :: "'g row list \<Rightarrow> 'g row list" where
  "ignore_index rs = map (\<lambda>(i, r). r\<lparr>label := i\<rparr>) (enumerate 0 rs)"

text \<open>The values of each column of the result are converted to the column's type by
  \<open>as_column\<close> (the integers of a column that was filled with missing values become floats,
  for instance).\<close>

definition convert_columns :: "(scalar list \<Rightarrow> scalar list) \<Rightarrow> 'g row list \<Rightarrow> 'g row list" where
  "convert_columns as_column rs =
     map (\<lambda>(i, r). r\<lparr>cells := map (\<lambda>j. as_column (map (\<lambda>r'. cells r' ! j) rs) ! i)
                                   [0..<length (cells r)]\<rparr>)
       (enumerate 0 rs)"

definition pd_concat ::
  "(scalar list \<Rightarrow> scalar list) \<Rightarrow> 'g gdf list \<Rightarrow> error + string list \<times> 'g row list" where
  "pd_concat as_column objs =
     (if objs = [] then Inl NoObjectsToConcatenate
      else
        let new_labels = union_indexes (map all_labels objs) in
        if list_ex (\<lambda>obj. all_labels obj \<noteq> new_labels \<and> \<not> distinct (all_labels obj)) objs
        then Inl InvalidIndexError
        else Inr (tl new_labels,
                  convert_columns as_column
                    (ignore_index (concat (map (reindex_rows new_labels) objs)))))"

text \<open>\<^verbatim>\<open>gpd.GeoDataFrame(pd.concat(all_layers.values(), ignore_index=True), crs=CRS_OUT)\<close>,
  the expression of \<open>main\<close> that builds the combined data set from the results of
  \<open>transform\<close>, whose reference system is \<^verbatim>\<open>CRS_OUT\<close>. The constructor refuses a frame with
  a second column labelled \<^verbatim>\<open>geometry\<close>.\<close>

definition combine_layers ::
  "(scalar list \<Rightarrow> scalar list) \<Rightarrow> 'g gdf list \<Rightarrow> error + 'g gdf" where
  "combine_layers as_column objs =
     (case pd_concat as_column objs of
        Inl e \<Rightarrow> Inl e
      | Inr (cols, rs) \<Rightarrow>
          if ''geometry'' \<in> set cols then Inl GeometryLabelError
          else Inr \<lparr>columns = cols, rows = rs, crs = Some CRS_OUT\<rparr>)"

subsection \<open>Load\<close>

text \<open>The file system as far as the module touches it: the directories that exist and the
  files by path. A GeoJSON file holds one collection; a GeoPackage holds collections by layer
  name. \<^verbatim>\<open>to_file\<close> raises \<^verbatim>\<open>ValueError\<close> on a frame with a repeated column label and
  writes nothing. With the GeoJSON driver it replaces the file. With the GPKG driver and a
  layer name it opens an existing GeoPackage for update and replaces or adds that layer,
  leaving the other layers of the file in place (this is what lets the loop of
  \<open>load_outputs\<close> put several layers into one file); a path that holds no GeoPackage gets a
  new one. Writing into a directory that does not exist fails. Other causes of a failed
  write (full disk, permissions) are not modelled.\<close>

datatype 'g file_content = GeoJSON "'g gdf" | GPKG "string \<rightharpoonup> 'g gdf" | OtherFile

record 'g filesystem =
  dirs :: "string set"
  files :: "string \<rightharpoonup> 'g file_content"

definition path_join :: "string \<Rightarrow> string \<Rightarrow> string" where
  "path_join d f = d @ ''/'' @ f"

definition gpkg_layers :: "'g file_content option \<Rightarrow> (string \<rightharpoonup> 'g gdf)" where
  "gpkg_layers f = (case f of Some (GPKG ls) \<Rightarrow> ls | _ \<Rightarrow> Map.empty)"

definition to_file_geojson ::
  "string \<Rightarrow> string \<Rightarrow> 'g gdf \<Rightarrow> 'g filesystem \<Rightarrow> outcome \<times> 'g filesystem" where
  "to_file_geojson d f gdf fs =
     (if \<not> distinct (all_labels gdf) then (Raised DuplicateLabelsError, fs)
      else if d \<notin> dirs fs then (Raised WriteError, fs)
      else (Returned, fs\<lparr>files := (files fs)(path_join d f \<mapsto> GeoJSON gdf)\<rparr>))"

definition to_file_gpkg ::
  "string \<Rightarrow> string \<Rightarrow> string \<Rightarrow> 'g gdf \<Rightarrow> 'g filesystem \<Rightarrow> outcome \<times> 'g filesystem" where
  "to_file_gpkg d f layer gdf fs =
     (if \<not> distinct (all_labels gdf) then (Raised DuplicateLabelsError, fs)
      else if d \<notin> dirs fs then (Raised WriteError, fs)
      else (Returned,
            fs\<lparr>files := (files fs)(path_join d f \<mapsto>
                   GPKG ((gpkg_layers (files fs (path_join d f)))(layer \<mapsto> gdf)))\<rparr>))"



text \<open>\<^verbatim>\<open>gdfs\<close> is a dictionary: its items in insertion order, the keys distinct.\<close>

fun load_outputs :: "(string \<times> 'g gdf) list \<Rightarrow> 'g filesystem \<Rightarrow> outcome \<times> 'g filesystem" where
  "load_outputs [] fs = (Returned, fs)"
| "load_outputs ((name, gdf) # rest) fs =
     (case to_file_geojson OUTPUT_DIR (name @ ''.geojson'') gdf fs of
        (Raised e, fs1) \<Rightarrow> (Raised e, fs1)
      | (Returned, fs1) \<Rightarrow>
          (case to_file_gpkg OUTPUT_DIR ''education.gpkg'' name gdf fs1 of
             (Raised e, fs2) \<Rightarrow> (Raised e, fs2)
           | (Returned, fs2) \<Rightarrow> load_outputs rest fs2))"

text \<open>\<^verbatim>\<open>OUTPUT_DIR.mkdir(exist_ok=True)\<close>, run when the module is loaded.\<close>

definition mkdir_exist_ok :: "string \<Rightarrow> 'g filesystem \<Rightarrow> outcome \<times> 'g filesystem" where
  "mkdir_exist_ok d fs =
     (if d \<in> dirs fs then (Returned, fs)
      else if d \<in> dom (files fs) then (Raised FileExistsError, fs)
      else (Returned, fs\<lparr>dirs := insert d (dirs fs)\<rparr>))"

subsection \<open>Main pipeline\<close>

text \<open>The \<^verbatim>\<open>for\<close> loop of \<open>main\<close> over the configured layers: extract, transform, store
  under the layer name. \<open>all_layers\<close> is a dictionary (\<open>AList.update\<close> replaces the value of
  a key in place and appends a new key). The configuration \<^verbatim>\<open>EDUCATION_LAYERS\<close> is the
  argument \<open>layers\<close>.\<close>

fun extract_transform_all ::
  "(crs \<Rightarrow> crs \<Rightarrow> 'g \<Rightarrow> 'g) \<Rightarrow> (string \<Rightarrow> string) \<Rightarrow> ('j \<Rightarrow> crs option)
     \<Rightarrow> (scalar list \<Rightarrow> scalar list) \<Rightarrow> nat \<Rightarrow> ('g, 'j) service \<Rightarrow> (string \<times> nat) list
     \<Rightarrow> (string \<times> 'g gdf) list \<Rightarrow> (error + (string \<times> 'g gdf) list) option" where
  "extract_transform_all reproject unicode_lower parse_crs as_column page_size service []
     all_layers = Some (Inr all_layers)"
| "extract_transform_all reproject unicode_lower parse_crs as_column page_size service
     ((name, layer_id) # rest) all_layers =
     (case extract_layer parse_crs as_column page_size service layer_id of
        None \<Rightarrow> None
      | Some (Inl e, fetched) \<Rightarrow> Some (Inl e)
      | Some (Inr gdf_raw, fetched) \<Rightarrow>
          (case transform reproject unicode_lower gdf_raw name of
             Inl e \<Rightarrow> Some (Inl e)
           | Inr gdf_clean \<Rightarrow>
               extract_transform_all reproject unicode_lower parse_crs as_column page_size
                 service rest (AList.update name gdf_clean all_layers)))"

definition main ::
  "(crs \<Rightarrow> crs \<Rightarrow> 'g \<Rightarrow> 'g) \<Rightarrow> (string \<Rightarrow> string) \<Rightarrow> ('j \<Rightarrow> crs option)
     \<Rightarrow> (scalar list \<Rightarrow> scalar list) \<Rightarrow> nat \<Rightarrow> (string \<times> nat) list \<Rightarrow> ('g, 'j) service
     \<Rightarrow> 'g filesystem \<Rightarrow> (outcome \<times> 'g filesystem) option" where
  "main reproject unicode_lower parse_crs as_column page_size layers service fs =
     (case extract_transform_all reproject unicode_lower parse_crs as_column page_size service
             layers [] of
        None \<Rightarrow> None
      | Some (Inl e) \<Rightarrow> Some (Raised e, fs)
      | Some (Inr all_layers) \<Rightarrow>
          (case combine_layers as_column (map snd all_layers) of
             Inl e \<Rightarrow> Some (Raised e, fs)
           | Inr combined \<Rightarrow>
               Some (load_outputs (AList.update ''education_all'' combined all_layers) fs)))"

text \<open>Running the module as a script: the module-level statements, then \<open>main()\<close>.\<close>

definition run_module ::
  "(crs \<Rightarrow> crs \<Rightarrow> 'g \<Rightarrow> 'g) \<Rightarrow> (string \<Rightarrow> string) \<Rightarrow> ('j \<Rightarrow> crs option)
     \<Rightarrow> (scalar list \<Rightarrow> scalar list) \<Rightarrow> ('g, 'j) service \<Rightarrow> 'g filesystem
     \<Rightarrow> (outcome \<times> 'g filesystem) option" where
  "run_module reproject unicode_lower parse_crs as_column service fs =
     (case mkdir_exist_ok OUTPUT_DIR fs of
        (Raised e, fs1) \<Rightarrow> Some (Raised e, fs1)
      | (Returned, fs1) \<Rightarrow>
          main reproject unicode_lower parse_crs as_column PAGE_SIZE EDUCATION_LAYERS service fs1)"

subsection \<open>Auxiliary definitions for the proofs\<close>

text \<open>The frame of \<open>transform\<close> before its two tagging assignments (\<open>gdf3\<close>), and the frame
  it returns (\<open>gdf5\<close>).\<close>

definition renamed ::
  "(crs \<Rightarrow> crs \<Rightarrow> 'g \<Rightarrow> 'g) \<Rightarrow> (string \<Rightarrow> string) \<Rightarrow> 'g gdf \<Rightarrow> 'g gdf" where
  "renamed reproject unicode_lower gdf0 =
     (let gdf1 = notnull_rows gdf0;
          gdf2 = (case crs gdf1 of
                    None \<Rightarrow> set_crs (EPSG 4326) gdf1
                  | Some src \<Rightarrow> to_crs reproject src CRS_OUT gdf1)
      in gdf2\<lparr>columns := map (normalize_column unicode_lower) (columns gdf2)\<rparr>)"

definition transformed ::
  "(crs \<Rightarrow> crs \<Rightarrow> 'g \<Rightarrow> 'g) \<Rightarrow> (string \<Rightarrow> string) \<Rightarrow> 'g gdf \<Rightarrow> string \<Rightarrow> 'g gdf" where
  "transformed reproject unicode_lower gdf0 layer_name =
     set_column ''facility_type'' (Str layer_name)
       (set_column ''facility_category'' (Str ''education'') (renamed reproject unicode_lower gdf0))"

text \<open>Column \<open>k\<close> exists and holds \<open>v\<close> in every row, in each column of that label.\<close>

definition tagged :: "string \<Rightarrow> scalar \<Rightarrow> 'g gdf \<Rightarrow> bool" where
  "tagged k v g \<longleftrightarrow>
     k \<in> set (columns g) \<and>
     (\<forall>r \<in> set (rows g). \<forall>i < length (cells r).
        i < length (columns g) \<longrightarrow> columns g ! i = k \<longrightarrow> cells r ! i = v)"

text \<open>A label whose normal form is left as it is by a second normalization. This holds of
  every ASCII label, and of \<^verbatim>\<open>str.lower\<close> on every label.\<close>

definition stable_label :: "(string \<Rightarrow> string) \<Rightarrow> string \<Rightarrow> bool" where
  "stable_label unicode_lower k \<longleftrightarrow>
     normalize_column unicode_lower (normalize_column unicode_lower k)
       = normalize_column unicode_lower k"

section \<open>Properties\<close>

subsection \<open>Column labels\<close>

lemma ascii_lower_idem: "ascii_lower (ascii_lower c) = ascii_lower c"
  by (simp add: ascii_lower_def)

lemma ascii_lower_space: "ascii_lower c = CHR '' '' \<longleftrightarrow> c = CHR '' ''"
  by (simp add: ascii_lower_def)

lemma ascii_lower_hyphen: "ascii_lower c = CHR ''-'' \<longleftrightarrow> c = CHR ''-''"
  by (simp add: ascii_lower_def)

lemma ascii_lower_letters:
  "map ascii_lower ''ABCDEFGHIJKLMNOPQRSTUVWXYZ'' = ''abcdefghijklmnopqrstuvwxyz''"
  by (simp add: ascii_lower_def)

lemma ascii_lower_other: "c \<notin> set ''ABCDEFGHIJKLMNOPQRSTUVWXYZ'' \<Longrightarrow> ascii_lower c = c"
  by (simp add: ascii_lower_def)

lemma digit7_ascii_lower: "digit7 (ascii_lower c) = digit7 c"
  by (auto simp: ascii_lower_def)

lemma normalize_column_map:
  "is_ascii s \<Longrightarrow> normalize_column ul s =
     map (\<lambda>c. if c = CHR '' '' \<or> c = CHR ''-'' then CHR ''_'' else ascii_lower c) s"
  by (simp add: normalize_column_def str_replace_def str_lower_def ascii_lower_space
      ascii_lower_hyphen)

lemma is_ascii_normalize_column: "is_ascii s \<Longrightarrow> is_ascii (normalize_column ul s)"
  by (simp add: normalize_column_map) (auto simp: is_ascii_def list_all_iff digit7_ascii_lower)

lemma normalize_column_examples:
  "normalize_column ul ''School Name'' = ''school_name''"
  "normalize_column ul ''school-name'' = ''school_name''"
  "normalize_column ul ''Facility-Type'' = ''facility_type''"
  "normalize_column ul ''ZIP-Code'' = ''zip_code''"
  "normalize_column ul ''NAME'' = ''name''"
  "normalize_column ul ''Geometry'' = ''geometry''"
  by (simp_all add: normalize_column_def str_lower_def str_replace_def is_ascii_def
      ascii_lower_def)

lemma normalize_column_idem:
  assumes "is_ascii s"
  shows "normalize_column ul (normalize_column ul s) = normalize_column ul s"
proof -
  have "normalize_column ul (normalize_column ul s)
      = map (\<lambda>c. if c = CHR '' '' \<or> c = CHR ''-'' then CHR ''_'' else ascii_lower c)
          (normalize_column ul s)"
    using is_ascii_normalize_column [OF assms] by (rule normalize_column_map)
  also have "\<dots> = normalize_column ul s"
    by (simp add: normalize_column_map [OF assms] ascii_lower_idem ascii_lower_def)
  finally show ?thesis .
qed

lemma stable_label_ascii: "is_ascii k \<Longrightarrow> stable_label ul k"
  by (simp add: stable_label_def normalize_column_idem)

subsection \<open>What each step of transform does to columns, rows and reference system\<close>

lemma length_assign_cells: "length (assign_cells k v cs xs) = length xs"
  by (induction k v cs xs rule: assign_cells.induct) simp_all

lemma nth_assign_cells:
  "i < length xs \<Longrightarrow>
   assign_cells k v cs xs ! i = (if i < length cs \<and> cs ! i = k then v else xs ! i)"
proof (induction k v cs xs arbitrary: i rule: assign_cells.induct)
  case (1 k v c cs x xs)
  then show ?case by (cases i) simp_all
qed simp_all

lemma assign_cells_noop:
  assumes "\<forall>i < length xs. i < length cs \<longrightarrow> cs ! i = k \<longrightarrow> xs ! i = v"
  shows "assign_cells k v cs xs = xs"
proof (rule nth_equalityI)
  show "length (assign_cells k v cs xs) = length xs"
    by (rule length_assign_cells)
next
  fix i
  assume "i < length (assign_cells k v cs xs)"
  then have "i < length xs"
    by (simp add: length_assign_cells)
  with assms show "assign_cells k v cs xs ! i = xs ! i"
    by (simp add: nth_assign_cells)
qed

lemma columns_set_column:
  "columns (set_column k v g) = (if k \<in> set (columns g) then columns g else columns g @ [k])"
  by (simp add: set_column_def)

lemma crs_set_column: "crs (set_column k v g) = crs g"
  by (simp add: set_column_def)

lemma labels_set_column: "map label (rows (set_column k v g)) = map label (rows g)"
  by (simp add: set_column_def comp_def)

lemma geoms_set_column: "map geom (rows (set_column k v g)) = map geom (rows g)"
  by (simp add: set_column_def comp_def)

lemma length_rows_set_column: "length (rows (set_column k v g)) = length (rows g)"
  by (simp add: set_column_def)

lemma rectangular_set_column: "rectangular g \<Longrightarrow> rectangular (set_column k v g)"
  by (simp add: rectangular_def set_column_def list_all_iff length_assign_cells)

lemma columns_renamed: "columns (renamed rp ul g) = map (normalize_column ul) (columns g)"
  by (simp add: renamed_def notnull_rows_def set_crs_def to_crs_def Let_def split: option.splits)

lemma crs_renamed: "crs (renamed rp ul g) = Some CRS_OUT"
  by (simp add: renamed_def notnull_rows_def set_crs_def to_crs_def Let_def CRS_OUT_def
      split: option.splits)

lemma labels_renamed:
  "map label (rows (renamed rp ul g)) = map label (filter (\<lambda>r. geom r \<noteq> None) (rows g))"
  by (simp add: renamed_def notnull_rows_def set_crs_def to_crs_def Let_def comp_def
      split: option.splits)

lemma cells_renamed:
  "map cells (rows (renamed rp ul g)) = map cells (filter (\<lambda>r. geom r \<noteq> None) (rows g))"
  by (simp add: renamed_def notnull_rows_def set_crs_def to_crs_def Let_def comp_def
      split: option.splits)

lemma geoms_renamed:
  "map geom (rows (renamed rp ul g)) =
     map (\<lambda>r. case crs g of None \<Rightarrow> geom r
               | Some src \<Rightarrow> map_option (reproject_to rp src CRS_OUT) (geom r))
       (filter (\<lambda>r. geom r \<noteq> None) (rows g))"
  by (simp add: renamed_def notnull_rows_def set_crs_def to_crs_def Let_def comp_def
      split: option.splits)

lemma rectangular_renamed: "rectangular g \<Longrightarrow> rectangular (renamed rp ul g)"
  by (simp add: rectangular_def renamed_def notnull_rows_def set_crs_def to_crs_def Let_def
      list_all_iff split: option.splits)

lemma columns_transform:
  "columns (transformed rp ul g L) =
     (let cs = map (normalize_column ul) (columns g);
          cs' = (if ''facility_category'' \<in> set cs then cs else cs @ [''facility_category''])
      in if ''facility_type'' \<in> set cs' then cs' else cs' @ [''facility_type''])"
  by (simp add: transformed_def columns_set_column columns_renamed Let_def)

lemma labels_transform:
  "map label (rows (transformed rp ul g L)) = map label (filter (\<lambda>r. geom r \<noteq> None) (rows g))"
  by (simp add: transformed_def labels_set_column labels_renamed)

lemma geoms_transform:
  "map geom (rows (transformed rp ul g L)) =
     map (\<lambda>r. case crs g of None \<Rightarrow> geom r
               | Some src \<Rightarrow> map_option (reproject_to rp src CRS_OUT) (geom r))
       (filter (\<lambda>r. geom r \<noteq> None) (rows g))"
  by (simp add: transformed_def geoms_set_column geoms_renamed)

lemma crs_transform: "crs (transformed rp ul g L) = Some CRS_OUT"
  by (simp add: transformed_def crs_set_column crs_renamed)

lemma rectangular_transform: "rectangular g \<Longrightarrow> rectangular (transformed rp ul g L)"
  by (simp add: transformed_def rectangular_set_column rectangular_renamed)

lemma geoms_transform_notnull: "None \<notin> set (map geom (rows (transformed rp ul g L)))"
  unfolding geoms_transform by (auto split: option.splits)


subsection \<open>Tag columns and single cells\<close>

lemma rectangularD: "rectangular g \<Longrightarrow> r \<in> set (rows g) \<Longrightarrow> length (cells r) = length (columns g)"
  by (simp add: rectangular_def list_all_iff)

lemma set_column_tagged:
  assumes "rectangular g"
  shows "tagged k v (set_column k v g)"
proof (cases "k \<in> set (columns g)")
  case True
  then show ?thesis
    by (auto simp: tagged_def set_column_def nth_assign_cells length_assign_cells)
next
  case False
  have "(cells r @ [v]) ! i = v"
    if "r \<in> set (rows g)" "i < Suc (length (columns g))" "(columns g @ [k]) ! i = k" for r i
  proof -
    have "i = length (columns g)"
    proof (rule ccontr)
      assume "i \<noteq> length (columns g)"
      with that(2) have "i < length (columns g)" by simp
      with that(3) False show False
        by (simp add: nth_append) (metis nth_mem)
    qed
    with rectangularD [OF assms that(1)] show ?thesis
      by (metis nth_append_length)
  qed
  with False show ?thesis
    by (auto simp: tagged_def set_column_def)
qed

lemma set_column_keeps_tagged:
  assumes "rectangular g" "tagged k v g" "k' \<noteq> k"
  shows "tagged k v (set_column k' v' g)"
proof (cases "k' \<in> set (columns g)")
  case True
  with assms(2,3) show ?thesis
    by (auto simp: tagged_def set_column_def nth_assign_cells length_assign_cells)
next
  case False
  have "(cells r @ [v']) ! i = v"
    if "r \<in> set (rows g)" "i < Suc (length (columns g))" "(columns g @ [k']) ! i = k" for r i
  proof -
    have "i < length (columns g)"
    proof (rule ccontr)
      assume "\<not> i < length (columns g)"
      with that(2) have "i = length (columns g)" by simp
      with that(3) assms(3) show False by simp
    qed
    moreover from this that(3) have "columns g ! i = k"
      by (simp add: nth_append)
    moreover have "length (cells r) = length (columns g)"
      by (rule rectangularD [OF assms(1) that(1)])
    ultimately show ?thesis
      using assms(2) that(1) by (simp add: tagged_def nth_append)
  qed
  with False assms(2) show ?thesis
    by (auto simp: tagged_def set_column_def)
qed

lemma set_column_noop:
  assumes "tagged k v g"
  shows "set_column k v g = g"
proof -
  have "r\<lparr>cells := assign_cells k v (columns g) (cells r)\<rparr> = r" if "r \<in> set (rows g)" for r
  proof -
    have "assign_cells k v (columns g) (cells r) = cells r"
      using assms that by (intro assign_cells_noop) (simp add: tagged_def)
    then show ?thesis by simp
  qed
  then have "map (\<lambda>r. r\<lparr>cells := assign_cells k v (columns g) (cells r)\<rparr>) (rows g) = rows g"
    by (simp add: map_idI)
  with assms show ?thesis
    by (simp add: set_column_def tagged_def)
qed

lemma cells_set_column_other:
  assumes "rectangular g" "i < length (columns g)" "columns g ! i \<noteq> k"
  shows "map (\<lambda>r. cells r ! i) (rows (set_column k v g)) = map (\<lambda>r. cells r ! i) (rows g)"
proof -
  have "assign_cells k v (columns g) (cells r) ! i = cells r ! i"
    and "(cells r @ [v]) ! i = cells r ! i" if "r \<in> set (rows g)" for r
    using rectangularD [OF assms(1) that] assms(2,3)
    by (simp_all add: nth_assign_cells nth_append)
  then show ?thesis
    by (simp add: set_column_def comp_def)
qed

lemma nth_columns_set_column:
  "i < length (columns g) \<Longrightarrow> columns (set_column k v g) ! i = columns g ! i"
  by (simp add: columns_set_column nth_append)

lemma length_columns_set_column: "length (columns g) \<le> length (columns (set_column k v g))"
  by (simp add: columns_set_column)

lemma cells_transform_other:
  assumes "rectangular g" "i < length (columns g)"
    and "normalize_column ul (columns g ! i) \<noteq> ''facility_category''"
    and "normalize_column ul (columns g ! i) \<noteq> ''facility_type''"
  shows "map (\<lambda>r. cells r ! i) (rows (transformed rp ul g L))
       = map (\<lambda>r. cells r ! i) (filter (\<lambda>r. geom r \<noteq> None) (rows g))"
proof -
  let ?g0 = "renamed rp ul g"
  let ?g1 = "set_column ''facility_category'' (Str ''education'') ?g0"
  have i0: "i < length (columns ?g0)" and c0: "columns ?g0 ! i = normalize_column ul (columns g ! i)"
    using assms(2) by (simp_all add: columns_renamed)
  have i1: "i < length (columns ?g1)"
    using i0 length_columns_set_column [of ?g0 "''facility_category''" "Str ''education''"]
    by simp
  have c1: "columns ?g1 ! i = normalize_column ul (columns g ! i)"
    using nth_columns_set_column [OF i0] c0 by simp
  have r0: "rectangular ?g0" and r1: "rectangular ?g1"
    using assms(1) by (simp_all add: rectangular_renamed rectangular_set_column)
  have "map (\<lambda>r. cells r ! i) (rows (transformed rp ul g L)) = map (\<lambda>r. cells r ! i) (rows ?g1)"
    unfolding transformed_def using r1 i1 c1 assms(4) by (intro cells_set_column_other) simp_all
  also have "\<dots> = map (\<lambda>r. cells r ! i) (rows ?g0)"
    using r0 i0 c0 assms(3) by (intro cells_set_column_other) simp_all
  also have "\<dots> = map (\<lambda>cs. cs ! i) (map cells (rows ?g0))"
    by (simp add: comp_def)
  also have "\<dots> = map (\<lambda>r. cells r ! i) (filter (\<lambda>r. geom r \<noteq> None) (rows g))"
    unfolding cells_renamed by (simp add: comp_def)
  finally show ?thesis .
qed

lemma normalize_column_tags:
  "normalize_column ul ''facility_category'' = ''facility_category''"
  "normalize_column ul ''facility_type'' = ''facility_type''"
  "normalize_column ul ''geometry'' = ''geometry''"
  by (simp_all add: normalize_column_def str_lower_def str_replace_def is_ascii_def
      ascii_lower_def)

lemma columns_transform_normalized:
  assumes "\<forall>k \<in> set (columns g). stable_label ul k"
  shows "map (normalize_column ul) (columns (transformed rp ul g L)) = columns (transformed rp ul g L)"
proof -
  have "map (normalize_column ul) (map (normalize_column ul) (columns g))
      = map (normalize_column ul) (columns g)"
    using assms by (simp add: stable_label_def)
  then show ?thesis
    by (simp add: columns_transform Let_def normalize_column_tags)
qed

lemma renamed_fixed:
  assumes "None \<notin> set (map geom (rows h))" "crs h = Some CRS_OUT"
    and "map (normalize_column ul) (columns h) = columns h"
  shows "renamed rp ul h = h"
proof -
  have "geom r \<noteq> None" if "r \<in> set (rows h)" for r
    using assms(1) that by (metis image_eqI set_map)
  then have keep: "filter (\<lambda>r. geom r \<noteq> None) (rows h) = rows h"
    by (simp add: filter_id_conv)
  have "r\<lparr>geom := map_option (reproject_to rp CRS_OUT CRS_OUT) (geom r)\<rparr> = r" for r :: "'a row"
    by (cases "geom r") (simp_all add: reproject_to_def)
  then have same: "map (\<lambda>r. r\<lparr>geom := map_option (reproject_to rp CRS_OUT CRS_OUT) (geom r)\<rparr>)
      (rows h) = rows h"
    by (simp add: map_idI)
  have "notnull_rows h = h"
    unfolding notnull_rows_def keep by simp
  moreover have "to_crs rp CRS_OUT CRS_OUT h = h"
    unfolding to_crs_def same using assms(2) by simp
  ultimately show ?thesis
    using assms(2,3) by (simp add: renamed_def Let_def)
qed

lemma transform_tagged:
  assumes "rectangular g"
  shows "tagged ''facility_category'' (Str ''education'') (transformed rp ul g L)"
    and "tagged ''facility_type'' (Str L) (transformed rp ul g L)"
proof -
  let ?g0 = "renamed rp ul g"
  let ?g1 = "set_column ''facility_category'' (Str ''education'') ?g0"
  have r0: "rectangular ?g0"
    using assms by (rule rectangular_renamed)
  then have r1: "rectangular ?g1"
    by (rule rectangular_set_column)
  have "tagged ''facility_category'' (Str ''education'') ?g1"
    using r0 by (rule set_column_tagged)
  with r1 show "tagged ''facility_category'' (Str ''education'') (transformed rp ul g L)"
    unfolding transformed_def by (rule set_column_keeps_tagged) simp
  show "tagged ''facility_type'' (Str L) (transformed rp ul g L)"
    unfolding transformed_def using r1 by (rule set_column_tagged)
qed

subsection \<open>Transform: the claims\<close>

lemma transform_Inr:
  "''geometry'' \<notin> set (columns g) \<Longrightarrow> transform rp ul g L = Inr (transformed rp ul g L)"
  by (simp add: transform_def transformed_def renamed_def Let_def)

lemma transform_Inl:
  "''geometry'' \<in> set (columns g) \<Longrightarrow> transform rp ul g L = Inl GeometryLabelError"
  by (simp add: transform_def)

text \<open>
  C3 (amended to missing geometries). \<open>transform\<close> drops the rows whose geometry is missing
  (null): every row of its result has a geometry, and the rows of the input that have one,
  an empty geometry included, are all kept, in their order and under their index labels.
\<close>

theorem transform_drops_missing_geometry:
  assumes "''geometry'' \<notin> set (columns g)"
  shows "\<exists>h. transform rp ul g L = Inr h
    \<and> list_all (\<lambda>r. geom r \<noteq> None) (rows h)
    \<and> map label (rows h) = map label (filter (\<lambda>r. geom r \<noteq> None) (rows g))
    \<and> length (rows h) = length (filter (\<lambda>r. geom r \<noteq> None) (rows g))"
proof -
  let ?h = "transformed rp ul g L"
  have "geom r \<noteq> None" if "r \<in> set (rows ?h)" for r
  proof
    assume "geom r = None"
    with that have "None \<in> set (map geom (rows ?h))"
      by (metis image_eqI set_map)
    with geoms_transform_notnull [of rp ul g L] show False by simp
  qed
  then have "list_all (\<lambda>r. geom r \<noteq> None) (rows ?h)"
    by (simp add: list_all_iff)
  moreover have "length (rows ?h) = length (filter (\<lambda>r. geom r \<noteq> None) (rows g))"
    using arg_cong [OF labels_transform [of rp ul g L], of length] by simp
  ultimately show ?thesis
    using transform_Inr [OF assms, of rp ul L] by (simp add: labels_transform)
qed

theorem transform_drops_missing_geometry_witness:
  "transform (\<lambda>s d (x::int \<times> int). x) (\<lambda>s. s)
      \<lparr>columns = [''NAME''],
       rows = [\<lparr>label = 0, geom = Some (1, 2), cells = [Str ''a'']\<rparr>,
               \<lparr>label = 1, geom = None, cells = [Str ''b'']\<rparr>,
               \<lparr>label = 2, geom = Some (3, 4), cells = [Str ''c'']\<rparr>],
       crs = None\<rparr> ''schools''
   = Inr \<lparr>columns = [''name'', ''facility_category'', ''facility_type''],
       rows = [\<lparr>label = 0, geom = Some (1, 2),
                cells = [Str ''a'', Str ''education'', Str ''schools'']\<rparr>,
               \<lparr>label = 2, geom = Some (3, 4),
                cells = [Str ''c'', Str ''education'', Str ''schools'']\<rparr>],
       crs = Some (EPSG 4326)\<rparr>"
proof -
  let ?g = "\<lparr>columns = [''NAME''],
       rows = [\<lparr>label = 0, geom = Some (1::int, 2::int), cells = [Str ''a'']\<rparr>,
               \<lparr>label = 1, geom = None, cells = [Str ''b'']\<rparr>,
               \<lparr>label = 2, geom = Some (3, 4), cells = [Str ''c'']\<rparr>],
       crs = None\<rparr>"
  have h: "''geometry'' \<notin> set (columns ?g)"
    by simp
  from transform_drops_missing_geometry [OF h, of "\<lambda>s d x. x" "\<lambda>s. s" "''schools''"]
  show ?thesis
    by (simp add: transform_def Let_def notnull_rows_def set_crs_def set_column_def
        normalize_column_examples)
qed

text \<open>
  C3 as stated fails for an empty geometry: \<^verbatim>\<open>notnull\<close> tests for a missing value, and a
  geometry without coordinates is not missing. The row stays.
\<close>

theorem transform_keeps_empty_geometry_counterexample:
  "empty_geometry []
   \<and> transform (\<lambda>s d x. x) (\<lambda>s. s)
      \<lparr>columns = [''NAME''],
       rows = [\<lparr>label = 0, geom = Some ([] :: (int \<times> int) list), cells = [Str ''a'']\<rparr>],
       crs = None\<rparr> ''schools''
   = Inr \<lparr>columns = [''name'', ''facility_category'', ''facility_type''],
       rows = [\<lparr>label = 0, geom = Some [],
                cells = [Str ''a'', Str ''education'', Str ''schools'']\<rparr>],
       crs = Some (EPSG 4326)\<rparr>"
  by (simp add: empty_geometry_def transform_def Let_def notnull_rows_def set_crs_def
      set_column_def normalize_column_examples)

text \<open>
  C4. The reference system of the result of \<open>transform\<close> is always EPSG:4326. When the input
  declares no reference system the geometries are unchanged; when it declares one, every
  geometry is converted from it to EPSG:4326 (a conversion from EPSG:4326 to itself leaves
  the geometry as it is).
\<close>

theorem transform_reprojection:
  assumes "''geometry'' \<notin> set (columns g)"
  shows "\<exists>h. transform rp ul g L = Inr h
   \<and> crs h = Some (EPSG 4326)
   \<and> (crs g = None \<longrightarrow>
        map geom (rows h) = map geom (filter (\<lambda>r. geom r \<noteq> None) (rows g)))
   \<and> (\<forall>src. crs g = Some src \<and> src \<noteq> EPSG 4326 \<longrightarrow>
        map geom (rows h) =
          map (\<lambda>r. map_option (rp src (EPSG 4326)) (geom r))
            (filter (\<lambda>r. geom r \<noteq> None) (rows g)))
   \<and> (crs g = Some (EPSG 4326) \<longrightarrow>
        map geom (rows h) = map geom (filter (\<lambda>r. geom r \<noteq> None) (rows g)))"
proof -
  have "reproject_to rp src (EPSG 4326) = rp src (EPSG 4326)" if "src \<noteq> EPSG 4326" for src
    using that by (intro ext) (simp add: reproject_to_def)
  moreover have "map_option (reproject_to rp (EPSG 4326) (EPSG 4326)) x = x" for x :: "'a option"
    by (cases x) (simp_all add: reproject_to_def)
  ultimately show ?thesis
    using transform_Inr [OF assms, of rp ul L]
    by (simp add: crs_transform [unfolded CRS_OUT_def] geoms_transform CRS_OUT_def)
qed

theorem transform_reprojection_witness:
  "transform (\<lambda>s d (x::int \<times> int). (fst x + 10, snd x + 10)) (\<lambda>s. s)
      \<lparr>columns = [''NAME''],
       rows = [\<lparr>label = 0, geom = Some (1, 2), cells = [Str ''a'']\<rparr>],
       crs = None\<rparr> ''schools''
     = Inr \<lparr>columns = [''name'', ''facility_category'', ''facility_type''],
         rows = [\<lparr>label = 0, geom = Some (1, 2),
                  cells = [Str ''a'', Str ''education'', Str ''schools'']\<rparr>],
         crs = Some (EPSG 4326)\<rparr>
   \<and> transform (\<lambda>s d (x::int \<times> int). (fst x + 10, snd x + 10)) (\<lambda>s. s)
      \<lparr>columns = [''NAME''],
       rows = [\<lparr>label = 0, geom = Some (1, 2), cells = [Str ''a'']\<rparr>],
       crs = Some (EPSG 3857)\<rparr> ''schools''
     = Inr \<lparr>columns = [''name'', ''facility_category'', ''facility_type''],
         rows = [\<lparr>label = 0, geom = Some (11, 12),
                  cells = [Str ''a'', Str ''education'', Str ''schools'']\<rparr>],
         crs = Some (EPSG 4326)\<rparr>
   \<and> transform (\<lambda>s d (x::int \<times> int). (fst x + 10, snd x + 10)) (\<lambda>s. s)
      \<lparr>columns = [''NAME''],
       rows = [\<lparr>label = 0, geom = Some (1, 2), cells = [Str ''a'']\<rparr>],
       crs = Some (EPSG 4326)\<rparr> ''schools''
     = Inr \<lparr>columns = [''name'', ''facility_category'', ''facility_type''],
         rows = [\<lparr>label = 0, geom = Some (1, 2),
                  cells = [Str ''a'', Str ''education'', Str ''schools'']\<rparr>],
         crs = Some (EPSG 4326)\<rparr>"
proof -
  let ?rp = "\<lambda>(s::crs) (d::crs) (x::int \<times> int). (fst x + 10, snd x + 10)"
  let ?g = "\<lambda>c. \<lparr>columns = [''NAME''],
       rows = [\<lparr>label = 0, geom = Some (1::int, 2::int), cells = [Str ''a'']\<rparr>],
       crs = c\<rparr>"
  have h: "''geometry'' \<notin> set (columns (?g c))" for c
    by simp
  from transform_reprojection [OF h [of None], of ?rp "\<lambda>s. s" "''schools''"]
    transform_reprojection [OF h [of "Some (EPSG 3857)"], of ?rp "\<lambda>s. s" "''schools''"]
    transform_reprojection [OF h [of "Some (EPSG 4326)"], of ?rp "\<lambda>s. s" "''schools''"]
  show ?thesis
    by (simp add: transform_def Let_def notnull_rows_def set_crs_def to_crs_def set_column_def
        normalize_column_examples reproject_to_def CRS_OUT_def)
qed

text \<open>
  C7. \<open>transform\<close> renames every attribute column by lower-casing its label
  (\<^verbatim>\<open>str.lower\<close>: on an ASCII label the letters \<^verbatim>\<open>A\<close> to \<^verbatim>\<open>Z\<close> become \<^verbatim>\<open>a\<close> to \<^verbatim>\<open>z\<close>
  and nothing else changes) and then replacing every space and every hyphen by an
  underscore, and changes the labels in no other way; the only other labels of the result
  are the two tag columns, appended when absent. \<^verbatim>\<open>School Name\<close> becomes \<^verbatim>\<open>school_name\<close>.
\<close>

theorem transform_normalizes_keys:
  assumes "''geometry'' \<notin> set (columns g)"
  shows "\<exists>h. transform rp ul g L = Inr h
   \<and> columns h =
       (let cs = map (normalize_column ul) (columns g);
            cs' = (if ''facility_category'' \<in> set cs then cs else cs @ [''facility_category''])
        in if ''facility_type'' \<in> set cs' then cs' else cs' @ [''facility_type''])
   \<and> take (length (columns g)) (columns h) = map (normalize_column ul) (columns g)
   \<and> normalize_column ul k =
       map (\<lambda>c. if c = CHR '' '' \<or> c = CHR ''-'' then CHR ''_'' else c)
         (if is_ascii k then map ascii_lower k else ul k)
   \<and> (is_ascii k \<longrightarrow> normalize_column ul k =
         map (\<lambda>c. if c = CHR '' '' \<or> c = CHR ''-'' then CHR ''_'' else ascii_lower c) k)
   \<and> map ascii_lower ''ABCDEFGHIJKLMNOPQRSTUVWXYZ'' = ''abcdefghijklmnopqrstuvwxyz''
   \<and> (\<forall>c. c \<notin> set ''ABCDEFGHIJKLMNOPQRSTUVWXYZ'' \<longrightarrow> ascii_lower c = c)
   \<and> normalize_column ul ''School Name'' = ''school_name''"
proof (intro exI [of _ "transformed rp ul g L"] conjI)
  show "transform rp ul g L = Inr (transformed rp ul g L)"
    by (rule transform_Inr [OF assms])
  show "columns (transformed rp ul g L) =
       (let cs = map (normalize_column ul) (columns g);
            cs' = (if ''facility_category'' \<in> set cs then cs else cs @ [''facility_category''])
        in if ''facility_type'' \<in> set cs' then cs' else cs' @ [''facility_type''])"
    by (rule columns_transform)
  show "take (length (columns g)) (columns (transformed rp ul g L))
      = map (normalize_column ul) (columns g)"
    by (simp add: columns_transform Let_def)
  show "normalize_column ul k =
       map (\<lambda>c. if c = CHR '' '' \<or> c = CHR ''-'' then CHR ''_'' else c)
         (if is_ascii k then map ascii_lower k else ul k)"
    by (simp add: normalize_column_def str_replace_def str_lower_def)
  show "is_ascii k \<longrightarrow> normalize_column ul k =
         map (\<lambda>c. if c = CHR '' '' \<or> c = CHR ''-'' then CHR ''_'' else ascii_lower c) k"
    using normalize_column_map [of k ul] by blast
  show "map ascii_lower ''ABCDEFGHIJKLMNOPQRSTUVWXYZ'' = ''abcdefghijklmnopqrstuvwxyz''"
    by (rule ascii_lower_letters)
  show "\<forall>c. c \<notin> set ''ABCDEFGHIJKLMNOPQRSTUVWXYZ'' \<longrightarrow> ascii_lower c = c"
    using ascii_lower_other by blast
  show "normalize_column ul ''School Name'' = ''school_name''"
    by (rule normalize_column_examples(1))
qed

theorem transform_normalizes_keys_witness:
  "transform (\<lambda>s d (x::int \<times> int). x) (\<lambda>s. s)
      \<lparr>columns = [''School Name'', ''ZIP-Code''],
       rows = [\<lparr>label = 0, geom = Some (1, 2), cells = [Str ''a'', Num 5]\<rparr>],
       crs = None\<rparr> ''schools''
     = Inr \<lparr>columns = [''school_name'', ''zip_code'', ''facility_category'', ''facility_type''],
         rows = [\<lparr>label = 0, geom = Some (1, 2),
                  cells = [Str ''a'', Num 5, Str ''education'', Str ''schools'']\<rparr>],
         crs = Some (EPSG 4326)\<rparr>
   \<and> is_ascii ''School Name''"
proof -
  let ?g = "\<lparr>columns = [''School Name'', ''ZIP-Code''],
       rows = [\<lparr>label = 0, geom = Some (1::int, 2::int), cells = [Str ''a'', Num 5]\<rparr>],
       crs = None\<rparr>"
  have h: "''geometry'' \<notin> set (columns ?g)"
    by simp
  have a: "is_ascii ''School Name''"
    by (simp add: is_ascii_def)
  from transform_normalizes_keys [OF h, of "\<lambda>s d x. x" "\<lambda>s. s" "''schools''" "''School Name''"]
  obtain h' where t: "transform (\<lambda>s d x. x) (\<lambda>s. s) ?g ''schools'' = Inr h'"
    and c: "take (length (columns ?g)) (columns h') = map (normalize_column (\<lambda>s. s)) (columns ?g)"
    by blast
  have "transform (\<lambda>s d x. x) (\<lambda>s. s) ?g ''schools''
     = Inr \<lparr>columns = [''school_name'', ''zip_code'', ''facility_category'', ''facility_type''],
         rows = [\<lparr>label = 0, geom = Some (1, 2),
                  cells = [Str ''a'', Num 5, Str ''education'', Str ''schools'']\<rparr>],
         crs = Some (EPSG 4326)\<rparr>"
    by (simp add: transform_def Let_def notnull_rows_def set_crs_def set_column_def
        normalize_column_examples)
  with t c a show ?thesis
    by simp
qed

text \<open>
  C8 (amended). On every rectangular data frame none of whose attribute labels normalizes
  to \<^verbatim>\<open>geometry\<close>, \<open>transform\<close> is idempotent: a second application with the same layer
  name returns the result of the first unchanged, in its rows, index labels, geometries,
  column labels, cells and reference system. (The labels are taken to be stable, as every
  ASCII label is.)
\<close>

theorem transform_idempotent:
  assumes "rectangular g"
    and "''geometry'' \<notin> set (map (normalize_column ul) (columns g))"
    and "\<forall>k \<in> set (columns g). stable_label ul k"
  shows "(\<exists>h. transform rp ul g L = Inr h \<and> transform rp ul h L = Inr h)
    \<and> (\<forall>k. is_ascii k \<longrightarrow> stable_label ul k)"
proof -
  let ?h = "transformed rp ul g L"
  have g: "''geometry'' \<notin> set (columns g)"
  proof
    assume "''geometry'' \<in> set (columns g)"
    then have "normalize_column ul ''geometry'' \<in> set (map (normalize_column ul) (columns g))"
      by simp
    with assms(2) show False
      by (simp only: normalize_column_tags(3))
  qed
  have h: "''geometry'' \<notin> set (columns ?h)"
    using assms(2) by (simp add: columns_transform Let_def)
  have "renamed rp ul ?h = ?h"
    using geoms_transform_notnull crs_transform columns_transform_normalized [OF assms(3)]
    by (rule renamed_fixed)
  moreover have "set_column ''facility_category'' (Str ''education'') ?h = ?h"
    using transform_tagged(1) [OF assms(1)] by (rule set_column_noop)
  moreover have "set_column ''facility_type'' (Str L) ?h = ?h"
    using transform_tagged(2) [OF assms(1)] by (rule set_column_noop)
  ultimately have "transformed rp ul ?h L = ?h"
    by (simp add: transformed_def [of rp ul ?h L])
  with transform_Inr [OF g, of rp ul L] transform_Inr [OF h, of rp ul L] stable_label_ascii
  show ?thesis
    by simp
qed

theorem transform_idempotent_witness:
  "transform (\<lambda>s d x. (fst x + 10, snd x + 10)) (\<lambda>s. s)
      \<lparr>columns = [''School Name'', ''Facility-Type''],
       rows = [\<lparr>label = 0, geom = Some (1::int, 2::int), cells = [Str ''a'', Str ''x'']\<rparr>,
               \<lparr>label = 1, geom = None, cells = [Str ''b'', Null]\<rparr>],
       crs = Some (EPSG 3857)\<rparr> ''schools''
     = Inr \<lparr>columns = [''school_name'', ''facility_type'', ''facility_category''],
         rows = [\<lparr>label = 0, geom = Some (11, 12),
                  cells = [Str ''a'', Str ''schools'', Str ''education'']\<rparr>],
         crs = Some (EPSG 4326)\<rparr>
   \<and> transform (\<lambda>s d x. (fst x + 10, snd x + 10)) (\<lambda>s. s)
      \<lparr>columns = [''school_name'', ''facility_type'', ''facility_category''],
       rows = [\<lparr>label = 0, geom = Some (11::int, 12::int),
                cells = [Str ''a'', Str ''schools'', Str ''education'']\<rparr>],
       crs = Some (EPSG 4326)\<rparr> ''schools''
     = Inr \<lparr>columns = [''school_name'', ''facility_type'', ''facility_category''],
         rows = [\<lparr>label = 0, geom = Some (11, 12),
                  cells = [Str ''a'', Str ''schools'', Str ''education'']\<rparr>],
         crs = Some (EPSG 4326)\<rparr>"
proof -
  let ?rp = "\<lambda>(s::crs) (d::crs) (x::int \<times> int). (fst x + 10, snd x + 10)"
  let ?g = "\<lparr>columns = [''School Name'', ''Facility-Type''],
       rows = [\<lparr>label = 0, geom = Some (1::int, 2::int), cells = [Str ''a'', Str ''x'']\<rparr>,
               \<lparr>label = 1, geom = None, cells = [Str ''b'', Null]\<rparr>],
       crs = Some (EPSG 3857)\<rparr>"
  have r: "rectangular ?g"
    by (simp add: rectangular_def)
  have n: "''geometry'' \<notin> set (map (normalize_column (\<lambda>s. s)) (columns ?g))"
    by (simp add: normalize_column_examples)
  have s: "\<forall>k \<in> set (columns ?g). stable_label (\<lambda>s. s) k"
    by (simp add: stable_label_ascii is_ascii_def)
  have e: "transform ?rp (\<lambda>s. s) ?g ''schools''
     = Inr \<lparr>columns = [''school_name'', ''facility_type'', ''facility_category''],
         rows = [\<lparr>label = 0, geom = Some (11, 12),
                  cells = [Str ''a'', Str ''schools'', Str ''education'']\<rparr>],
         crs = Some (EPSG 4326)\<rparr>"
    by (simp add: transform_def Let_def notnull_rows_def to_crs_def set_column_def
        normalize_column_examples reproject_to_def CRS_OUT_def)
  from transform_idempotent [OF r n s, of ?rp "''schools''"] show ?thesis
    unfolding e by simp
qed

text \<open>
  C8 as stated fails for a frame with an attribute such as \<^verbatim>\<open>Geometry\<close>: the first
  application renames it to \<^verbatim>\<open>geometry\<close>, and the second raises at line 92.
\<close>

theorem transform_twice_fails_counterexample:
  "transform (\<lambda>s d (x::int \<times> int). x) (\<lambda>s. s)
      \<lparr>columns = [''Geometry''],
       rows = [\<lparr>label = 0, geom = Some (1, 2), cells = [Str ''x'']\<rparr>],
       crs = None\<rparr> ''schools''
     = Inr \<lparr>columns = [''geometry'', ''facility_category'', ''facility_type''],
         rows = [\<lparr>label = 0, geom = Some (1, 2),
                  cells = [Str ''x'', Str ''education'', Str ''schools'']\<rparr>],
         crs = Some (EPSG 4326)\<rparr>
   \<and> transform (\<lambda>s d (x::int \<times> int). x) (\<lambda>s. s)
      \<lparr>columns = [''geometry'', ''facility_category'', ''facility_type''],
       rows = [\<lparr>label = 0, geom = Some (1, 2),
                cells = [Str ''x'', Str ''education'', Str ''schools'']\<rparr>],
       crs = Some (EPSG 4326)\<rparr> ''schools''
     = Inl GeometryLabelError"
  by (simp add: transform_def Let_def notnull_rows_def set_crs_def set_column_def
      normalize_column_examples)

text \<open>
  C10. When two different source labels normalize to the same label, \<open>transform\<close> raises no
  error on their account and keeps both columns, each at its position and under the
  common normalized label, and every kept row keeps both cells. (Cells under a label that
  normalizes to one of the two tag labels are overwritten by the tag.)
\<close>

theorem transform_keeps_colliding_columns:
  assumes "i < length (columns g)" "j < length (columns g)" "i \<noteq> j"
    and "columns g ! i \<noteq> columns g ! j"
    and "normalize_column ul (columns g ! i) = normalize_column ul (columns g ! j)"
    and "''geometry'' \<notin> set (columns g)"
  shows "\<exists>h. transform rp ul g L = Inr h
    \<and> length (columns g) \<le> length (columns h)
    \<and> columns h ! i = normalize_column ul (columns g ! i)
    \<and> columns h ! j = normalize_column ul (columns g ! i)
    \<and> (rectangular g \<and> normalize_column ul (columns g ! i) \<noteq> ''facility_category''
         \<and> normalize_column ul (columns g ! i) \<noteq> ''facility_type'' \<longrightarrow>
       map (\<lambda>r. (cells r ! i, cells r ! j)) (rows h)
         = map (\<lambda>r. (cells r ! i, cells r ! j)) (filter (\<lambda>r. geom r \<noteq> None) (rows g)))"
proof -
  let ?h = "transformed rp ul g L"
  have nth: "columns ?h ! n = normalize_column ul (columns g ! n)"
    if "n < length (columns g)" for n
    using that by (simp add: columns_transform Let_def nth_append)
  have len: "length (columns g) \<le> length (columns ?h)"
    by (simp add: columns_transform Let_def)
  have vals: "map (\<lambda>r. (cells r ! i, cells r ! j)) (rows ?h)
         = map (\<lambda>r. (cells r ! i, cells r ! j)) (filter (\<lambda>r. geom r \<noteq> None) (rows g))"
    if "rectangular g" "normalize_column ul (columns g ! i) \<noteq> ''facility_category''"
      "normalize_column ul (columns g ! i) \<noteq> ''facility_type''"
  proof -
    have a: "map (\<lambda>r. cells r ! i) (rows ?h)
        = map (\<lambda>r. cells r ! i) (filter (\<lambda>r. geom r \<noteq> None) (rows g))"
      using that assms(1) by (intro cells_transform_other) simp_all
    have b: "map (\<lambda>r. cells r ! j) (rows ?h)
        = map (\<lambda>r. cells r ! j) (filter (\<lambda>r. geom r \<noteq> None) (rows g))"
      using that assms(2,5) by (intro cells_transform_other) simp_all
    have "map (\<lambda>r. (cells r ! i, cells r ! j)) xs
        = zip (map (\<lambda>r. cells r ! i) xs) (map (\<lambda>r. cells r ! j) xs)" for xs :: "'a row list"
      by (induction xs) simp_all
    with a b show ?thesis by simp
  qed
  from nth [OF assms(1)] nth [OF assms(2)] assms(5) len vals transform_Inr [OF assms(6), of rp ul L]
  show ?thesis
    by simp
qed

theorem transform_keeps_colliding_columns_witness:
  "transform (\<lambda>s d (x::int \<times> int). x) (\<lambda>s. s)
      \<lparr>columns = [''School Name'', ''school-name''],
       rows = [\<lparr>label = 0, geom = Some (1, 2), cells = [Str ''a'', Str ''b'']\<rparr>],
       crs = None\<rparr> ''schools''
     = Inr \<lparr>columns = [''school_name'', ''school_name'', ''facility_category'', ''facility_type''],
        rows = [\<lparr>label = 0, geom = Some (1, 2),
                 cells = [Str ''a'', Str ''b'', Str ''education'', Str ''schools'']\<rparr>],
        crs = Some (EPSG 4326)\<rparr>"
proof -
  let ?g = "\<lparr>columns = [''School Name'', ''school-name''],
       rows = [\<lparr>label = 0, geom = Some (1::int, 2::int), cells = [Str ''a'', Str ''b'']\<rparr>],
       crs = None\<rparr>"
  have h1: "0 < length (columns ?g)" and h2: "1 < length (columns ?g)" and h3: "(0::nat) \<noteq> 1"
    and h4: "columns ?g ! 0 \<noteq> columns ?g ! 1"
    and h5: "normalize_column (\<lambda>s. s) (columns ?g ! 0) = normalize_column (\<lambda>s. s) (columns ?g ! 1)"
    and h6: "''geometry'' \<notin> set (columns ?g)"
    by (simp_all add: normalize_column_examples)
  from transform_keeps_colliding_columns [OF h1 h2 h3 h4 h5 h6, of "\<lambda>s d x. x" "''schools''"]
  show ?thesis
    by (simp add: transform_def Let_def notnull_rows_def set_crs_def set_column_def
        normalize_column_examples)
qed

subsection \<open>Extract\<close>





lemma extract_loop_exit_aux:
  assumes "extract_loop P service lid off acc fetched = Some y"
  shows "case y of (Inl e, reqs) \<Rightarrow> True
         | (Inr (fs, data), reqs) \<Rightarrow>
             get_features data = [] \<and> reqs \<noteq> [] \<and> service lid (last reqs) P = Inr data"
proof (rule extract_loop.raw_induct [where P = "\<lambda>P service lid off acc fetched y.
      case y of (Inl e, reqs) \<Rightarrow> True
         | (Inr (fs, data), reqs) \<Rightarrow>
             get_features data = [] \<and> reqs \<noteq> [] \<and> service lid (last reqs) P = Inr data",
      OF _ assms], goal_cases)
  case (1 loop P service lid off acc fetched y)
  show ?case
  proof (cases "service lid off P")
    case (Inl e)
    with 1(2) show ?thesis by auto
  next
    case (Inr data)
    show ?thesis
    proof (cases "get_features data = []")
      case True
      with Inr 1(2) show ?thesis by auto
    next
      case False
      with Inr 1(2) have "loop P service lid (off + P) (acc @ get_features data) (fetched @ [off]) = Some y"
        by simp
      then show ?thesis by (rule 1(1))
    qed
  qed
qed

lemma extract_loop_exit:
  assumes "extract_loop P service lid off acc fetched = Some (Inr (fs, data), reqs)"
  shows "get_features data = [] \<and> reqs \<noteq> [] \<and> service lid (last reqs) P = Inr data"
  using extract_loop_exit_aux [OF assms] by simp







lemma crs_frame_of: "crs (frame_of ac fs c) = c"
  by (simp add: frame_of_def Let_def)

lemma columns_frame_of: "''geometry'' \<notin> set (columns (frame_of ac fs c))"
  by (simp add: frame_of_def Let_def unique_labels_def)

lemma from_features_Inr:
  assumes "from_features pc ac fs c = Inr g"
  shows "''geometry'' \<notin> set (columns g)"
  using assms columns_frame_of [of ac fs]
  by (auto simp: from_features_def split: if_splits option.splits)



lemma extract_layer_Inr:
  assumes "extract_layer pc ac P service lid = Some (Inr g, r)"
  shows "''geometry'' \<notin> set (columns g)"
proof -
  from assms obtain fs c where "from_features pc ac fs c = Inr g"
    by (auto simp: extract_layer_def split: option.splits sum.splits prod.splits if_splits)
  then show ?thesis
    by (rule from_features_Inr)
qed





subsection \<open>A layer without records\<close>

lemma extract_loop_first_empty:
  assumes "service lid off P = Inr data" "get_features data = []"
  shows "extract_loop P service lid off acc fetched = Some (Inr (acc, data), fetched @ [off])"
  using assms by (subst extract_loop.simps) simp

lemma extract_loop_prefix:
  assumes "extract_loop P service lid off acc fetched = Some y"
  shows "case y of (Inl e, reqs) \<Rightarrow> True
         | (Inr (fs, data), reqs) \<Rightarrow> \<exists>rest. fs = acc @ rest \<and> (rest = [] \<longrightarrow> (\<exists>d. service lid off P = Inr d \<and> get_features d = []))"
proof (rule extract_loop.raw_induct [where P = "\<lambda>P service lid off acc fetched y.
      case y of (Inl e, reqs) \<Rightarrow> True
         | (Inr (fs, data), reqs) \<Rightarrow> \<exists>rest. fs = acc @ rest \<and> (rest = [] \<longrightarrow> (\<exists>d. service lid off P = Inr d \<and> get_features d = []))",
      OF _ assms], goal_cases)
  case (1 loop P service lid off acc fetched y)
  show ?case
  proof (cases "service lid off P")
    case (Inl e)
    with 1(2) show ?thesis by auto
  next
    case (Inr data)
    show ?thesis
    proof (cases "get_features data = []")
      case True
      with Inr 1(2) show ?thesis by auto
    next
      case False
      with Inr 1(2) have "loop P service lid (off + P) (acc @ get_features data) (fetched @ [off]) = Some y"
        by simp
      from 1(1) [OF this] False show ?thesis
        by (auto split: prod.splits sum.splits)
    qed
  qed
qed

lemma accumulates_nothing_iff:
  "(\<exists>data reqs. extract_loop P service lid 0 [] [] = Some (Inr ([], data), reqs))
     \<longleftrightarrow> (\<exists>data. service lid 0 P = Inr data \<and> get_features data = [])"
proof
  assume "\<exists>data reqs. extract_loop P service lid 0 [] [] = Some (Inr ([], data), reqs)"
  then obtain data reqs where "extract_loop P service lid 0 [] [] = Some (Inr ([], data), reqs)"
    by blast
  from extract_loop_prefix [OF this] show "\<exists>data. service lid 0 P = Inr data \<and> get_features data = []"
    by simp
next
  assume "\<exists>data. service lid 0 P = Inr data \<and> get_features data = []"
  then obtain data where "service lid 0 P = Inr data" "get_features data = []"
    by blast
  then have "extract_loop P service lid 0 [] [] = Some (Inr ([], data), [] @ [0])"
    by (rule extract_loop_first_empty [where service = service and data = data])
  then show "\<exists>data reqs. extract_loop P service lid 0 [] [] = Some (Inr ([], data), reqs)"
    by blast
qed

lemma extract_transform_all_fails:
  assumes "extract_layer pc ac P service lid = Some (Inl e, reqs)"
    and "\<forall>(n, l) \<in> set pre. \<exists>g r. extract_layer pc ac P service l = Some (Inr g, r)"
  shows "extract_transform_all rp ul pc ac P service (pre @ (name, lid) # post) acc
       = Some (Inl e)"
  using assms(2)
proof (induction pre arbitrary: acc)
  case Nil
  show ?case using assms(1) by simp
next
  case (Cons x pre)
  obtain n l where x: "x = (n, l)" by (cases x)
  with Cons.prems obtain g r where g: "extract_layer pc ac P service l = Some (Inr g, r)"
    by auto
  from extract_layer_Inr [OF g] have t: "transform rp ul g n = Inr (transformed rp ul g n)"
    by (rule transform_Inr)
  from Cons.prems have "\<forall>(n, l) \<in> set pre. \<exists>g r. extract_layer pc ac P service l = Some (Inr g, r)"
    by simp
  then show ?case
    using Cons.IH x g t by simp
qed

lemma load_outputs_raises:
  "load_outputs gdfs fs = (Raised e, fs') \<Longrightarrow> e = WriteError \<or> e = DuplicateLabelsError"
proof (induction gdfs fs rule: load_outputs.induct)
  case (1 fs)
  then show ?case by simp
next
  case (2 name gdf rest fs)
  then show ?case
    by (auto simp: to_file_geojson_def to_file_gpkg_def split: if_splits)
qed

lemma combine_layers_raises:
  "combine_layers ac objs = Inl e \<Longrightarrow>
     e = NoObjectsToConcatenate \<or> e = InvalidIndexError \<or> e = GeometryLabelError"
  by (auto simp: combine_layers_def pd_concat_def Let_def split: sum.splits if_splits prod.splits)

lemma main_no_data_keeps_files:
  assumes "main rp ul pc ac P layers service fs = Some (Raised (NoDataReturned l), fs')"
  shows "fs' = fs"
proof (cases "extract_transform_all rp ul pc ac P service layers []")
  case None
  with assms show ?thesis by (simp add: main_def)
next
  case (Some r)
  show ?thesis
  proof (cases r)
    case (Inl e)
    with Some assms show ?thesis by (simp add: main_def)
  next
    case (Inr all_layers)
    show ?thesis
    proof (cases "combine_layers ac (map snd all_layers)")
      case (Inl e)
      with Some Inr assms combine_layers_raises [OF Inl] show ?thesis
        by (auto simp: main_def)
    next
      case (Inr combined)
      with Some \<open>r = Inr all_layers\<close> assms
      have "load_outputs (AList.update ''education_all'' combined all_layers) fs
          = (Raised (NoDataReturned l), fs')"
        by (simp add: main_def)
      from load_outputs_raises [OF this] show ?thesis by simp
    qed
  qed
qed

text \<open>
  C5. When the first page of a configured layer is empty (which is exactly when the loop
  accumulates no record) and the layers before it were extracted, \<open>extract_layer\<close> raises
  the no-data error for that layer, \<open>main\<close> ends with this error, and the file system is as
  it was before the run: \<open>load_outputs\<close> has not been reached. Whenever \<open>main\<close> ends with a
  no-data error, no file has been written.
\<close>

theorem empty_layer_aborts_run:
  assumes "service lid 0 P = Inr data" "get_features data = []"
    and "layers = pre @ (name, lid) # post"
    and "\<forall>(n, l) \<in> set pre. \<exists>g r. extract_layer pc ac P service l = Some (Inr g, r)"
  shows "extract_loop P service lid 0 [] [] = Some (Inr ([], data), [0])
    \<and> extract_layer pc ac P service lid = Some (Inl (NoDataReturned lid), [0])
    \<and> main rp ul pc ac P layers service fs = Some (Raised (NoDataReturned lid), fs)
    \<and> ((\<exists>d r. extract_loop P service lid 0 [] [] = Some (Inr ([], d), r))
         \<longleftrightarrow> (\<exists>d. service lid 0 P = Inr d \<and> get_features d = []))
    \<and> (\<forall>ls l fs'. main rp ul pc ac P ls service fs = Some (Raised (NoDataReturned l), fs')
          \<longrightarrow> fs' = fs)"
proof -
  from assms(1,2) have "extract_loop P service lid 0 [] [] = Some (Inr ([], data), [] @ [0])"
    by (rule extract_loop_first_empty [where service = service and data = data])
  then have a: "extract_loop P service lid 0 [] [] = Some (Inr ([], data), [0])"
    by simp
  then have b: "extract_layer pc ac P service lid = Some (Inl (NoDataReturned lid), [0])"
    by (simp add: extract_layer_def)
  have "extract_transform_all rp ul pc ac P service layers [] = Some (Inl (NoDataReturned lid))"
    unfolding assms(3) using b assms(4) by (rule extract_transform_all_fails)
  then have c: "main rp ul pc ac P layers service fs = Some (Raised (NoDataReturned lid), fs)"
    by (simp add: main_def)
  from a b c accumulates_nothing_iff [of P service lid]
    main_no_data_keeps_files [of rp ul pc ac P _ service fs]
  show ?thesis by blast
qed

theorem empty_layer_aborts_run_witness:
  "main (\<lambda>s d x. x) (\<lambda>s. s) parse_crs_example (\<lambda>xs. xs) 2 EDUCATION_LAYERS
     (\<lambda>l. if l = 76
          then paged_service [\<lparr>geometry = Some (1::int, 2::int), properties = [(''NAME'', Str ''a'')]\<rparr>] None l
          else paged_service [] None l)
     \<lparr>dirs = {OUTPUT_DIR}, files = Map.empty\<rparr>
   = Some (Raised (NoDataReturned 74), \<lparr>dirs = {OUTPUT_DIR}, files = Map.empty\<rparr>)"
proof -
  let ?svc = "\<lambda>l. if l = 76
          then paged_service [\<lparr>geometry = Some (1::int, 2::int), properties = [(''NAME'', Str ''a'')]\<rparr>] None l
          else paged_service [] None l"
  let ?data = "\<lparr>features_field = Some [], crs_field = None\<rparr> :: (int \<times> int, crs_json) response"
  have h1: "?svc 74 0 2 = Inr ?data"
    by (simp add: paged_service_def)
  have h2: "get_features ?data = []"
    by (simp add: get_features_def)
  have h3: "EDUCATION_LAYERS = [(''schools'', 76)] @ (''colleges_universities'', 74)
      # [(''technical_trade_schools'', 75)]"
    by (simp add: EDUCATION_LAYERS_def)
  have "extract_layer parse_crs_example (\<lambda>xs. xs) 2 ?svc 76 = Some (Inr (frame_of (\<lambda>xs. xs)
      [\<lparr>geometry = Some (1::int, 2::int), properties = [(''NAME'', Str ''a'')]\<rparr>] None), [0, 2])"
    by (simp add: extract_layer_def extract_loop.simps paged_service_def get_features_def
        from_features_def geometry_overwritten_def)
  then have h4: "\<forall>(n, l) \<in> set [(''schools'', 76 :: nat)].
      \<exists>g r. extract_layer parse_crs_example (\<lambda>xs. xs) 2 ?svc l = Some (Inr g, r)"
    by simp
  from empty_layer_aborts_run [where service = ?svc and lid = 74 and P = 2 and data = ?data
      and layers = EDUCATION_LAYERS and pre = "[(''schools'', 76)]"
      and name = "''colleges_universities''" and post = "[(''technical_trade_schools'', 75)]"
      and pc = parse_crs_example and ac = "\<lambda>xs. xs",
      OF h1 h2 h3 h4]
  show ?thesis by blast
qed



subsection \<open>Load\<close>


















end
